theory Spec2Isabelle
  imports Main "HOL-Library.Word"
begin

section \<open>The seven-segment display driver (seven\_segment.c)\<close>

text \<open>
  A shallow embedding of the character-device driver in \<^verbatim>\<open>src/seven_segment.c\<close>.
  The driver keeps one \<^verbatim>\<open>char digit_to_display\<close> inside a heap-allocated
  \<^verbatim>\<open>struct seven_segment_dev\<close>, offers it through the file operations
  \<^verbatim>\<open>read\<close>/\<open>write\<close> and through the class attribute
  \<^verbatim>\<open>digit_to_display\<close> (\<^verbatim>\<open>show\<close>/\<open>store\<close>), and sets itself up and
  tears itself down in \<^verbatim>\<open>seven_segment_init\<close> and \<^verbatim>\<open>seven_segment_exit\<close>.

  Bytes are 8-bit words, so the conversions of an \<^verbatim>\<open>int\<close> expression back to
  \<^verbatim>\<open>char\<close> are the wrap-around of word arithmetic. Pointers that can be
  \<^verbatim>\<open>NULL\<close> are options; dereferencing \<^verbatim>\<open>NULL\<close> is the outcome \<open>Oops\<close>.
\<close>

subsection \<open>Data\<close>

type_synonym byte = "8 word"

text \<open>\<^verbatim>\<open>#define USE_DIPLAY_NUM 1\<close> and \<^verbatim>\<open>#define USE_NUMBER_OF_DIGITS 1\<close>.\<close>

definition USE_DIPLAY_NUM :: nat where
  "USE_DIPLAY_NUM = 1"

definition USE_NUMBER_OF_DIGITS :: nat where
  "USE_NUMBER_OF_DIGITS = 1"

text \<open>The error numbers the driver returns negated.\<close>

definition EFAULT :: int where
  "EFAULT = 14"

definition ENOMEM :: int where
  "ENOMEM = 12"

definition EINVAL :: int where
  "EINVAL = 22"

text \<open>
  \<^verbatim>\<open>struct seven_segment_dev\<close>. Its \<^verbatim>\<open>cdev\<close> member is the registration
  handle; whether it is registered is tracked as the resource \<open>Cdev\<close> below.
\<close>

record seven_segment_dev =
  digit_to_display :: byte

text \<open>
  What the module holds from the kernel, named after the call that acquires it:
  the device number region (\<^verbatim>\<open>alloc_chrdev_region\<close>), the class
  (\<^verbatim>\<open>class_register\<close>), the device structure (\<^verbatim>\<open>kmalloc\<close>), the character device
  (\<^verbatim>\<open>cdev_add\<close>), the device node (\<^verbatim>\<open>device_create\<close>) and the message buffer
  (\<^verbatim>\<open>kmalloc\<close>).
\<close>

datatype resource = Region | Class | DevMem | Cdev | Node | MsgBuf

text \<open>The kernel calls that give something back, in the order the driver makes them.\<close>

datatype kcall =
    Unregister_chrdev_region
  | Class_destroy
  | Device_destroy
  | Kfree_devp

text \<open>
  The globals of the module and what it has done to its surroundings:
  \<^item> \<open>seven_segment_devp\<close> and \<open>message\<close> are the two global pointers
    (\<open>None\<close> is \<^verbatim>\<open>NULL\<close>); \<open>message\<close> holds the bytes found from that address on,
    so a list longer than \<open>USE_NUMBER_OF_DIGITS\<close> is a write past the allocation;
  \<^item> \<open>held\<close> lists the resources acquired and not released, oldest first;
  \<^item> \<open>released\<close> is the trace of releasing calls;
  \<^item> \<open>screen\<close> is the trace of calls of \<^verbatim>\<open>display_on_screen\<close>, each with the
    bytes its argument points to.
\<close>

record driver =
  seven_segment_devp :: "seven_segment_dev option"
  message :: "byte list option"
  held :: "resource list"
  released :: "kcall list"
  screen :: "byte list list"

text \<open>A handler either returns a value and the new state, or dereferences \<^verbatim>\<open>NULL\<close>.\<close>

datatype 'a outcome = Oops | Done 'a

subsection \<open>The surroundings of the driver\<close>

text \<open>
  Modelled from the spec: \<^verbatim>\<open>display_on_screen\<close> is declared in
  \<^verbatim>\<open>seven_segment.h\<close>, which is not among the sources. The specification describes
  it as the actuator, an operation with a side effect, no return value and no failure.
  Here it appends the bytes it is given to the trace \<open>screen\<close>.
\<close>

definition display_on_screen :: "byte list \<Rightarrow> driver \<Rightarrow> driver" where
  "display_on_screen buf s = s\<lparr>screen := screen s @ [buf]\<rparr>"

text \<open>
  \<^verbatim>\<open>memset(p, c, n)\<close> on the bytes at \<open>p\<close>: the first \<open>n\<close> bytes become \<open>c\<close>.
\<close>

definition memset :: "byte list \<Rightarrow> byte \<Rightarrow> nat \<Rightarrow> byte list" where
  "memset m c n = replicate n c @ drop n m"

text \<open>
  \<^verbatim>\<open>copy_from_user(to, from, n)\<close>. The list \<open>from\<close> holds the bytes that can be read
  at the user address; reading further faults. The call copies as many of the \<open>n\<close> bytes
  as it can read, zeroes the rest of the \<open>n\<close> bytes of the destination, and returns the
  number of bytes it could not copy together with the destination.
\<close>

definition copy_from_user :: "byte list \<Rightarrow> byte list \<Rightarrow> nat \<Rightarrow> nat \<times> byte list" where
  "copy_from_user to from n =
     (let k = min n (length from)
      in (n - k, take k from @ replicate (n - k) 0 @ drop n to))"

text \<open>
  The value of a \<^verbatim>\<open>char\<close> in an \<^verbatim>\<open>int\<close> expression. The module is built for
  the Raspberry Pi, where \<^verbatim>\<open>char\<close> is unsigned.
\<close>

definition int_of_char :: "byte \<Rightarrow> int" where
  "int_of_char b = uint b"

text \<open>\<^verbatim>\<open>buf[0]\<close> of the buffer sysfs hands to \<^verbatim>\<open>store\<close>: sysfs ends the buffer
  with a zero byte, so an empty input reads as 0.\<close>

definition first_byte :: "byte list \<Rightarrow> byte" where
  "first_byte buf = (case buf of [] \<Rightarrow> 0 | b # _ \<Rightarrow> b)"

subsection \<open>The class attribute: show and store\<close>

text \<open>
  \<^verbatim>\<open>return sprintf(buf, "%c\n", '0' + seven_segment_devp->digit_to_display);\<close>
  The result is the number of characters written and the characters.
\<close>

definition digit_to_display_show :: "driver \<Rightarrow> ((int \<times> byte list) \<times> driver) outcome" where
  "digit_to_display_show s =
     (case seven_segment_devp s of
        None \<Rightarrow> Oops
      | Some dev \<Rightarrow> Done ((2, [48 + digit_to_display dev, 10]), s))"

text \<open>
  \<^verbatim>\<open>
  if (buf[0] - (int)'0' < 10 && buf[0]-(int)'0' >= 0) {
      seven_segment_devp->digit_to_display = buf[0] - (int)'0';
      display_on_screen(buf);
  }
  return 1;
  \<close>
\<close>

definition digit_to_display_store :: "driver \<Rightarrow> byte list \<Rightarrow> nat \<Rightarrow> (int \<times> driver) outcome" where
  "digit_to_display_store s buf count =
     (if int_of_char (first_byte buf) - 48 < 10 \<and> int_of_char (first_byte buf) - 48 \<ge> 0 then
        (case seven_segment_devp s of
           None \<Rightarrow> Oops
         | Some dev \<Rightarrow>
             Done (1, display_on_screen buf
                        (s\<lparr>seven_segment_devp :=
                             Some (dev\<lparr>digit_to_display := first_byte buf - 48\<rparr>)\<rparr>)))
      else Done (1, s))"

subsection \<open>The file operations: read and write\<close>

text \<open>
  \<^verbatim>\<open>open\<close> stores in \<^verbatim>\<open>filp->private_data\<close> the address of the structure that
  contains the character device, which is the one structure \<open>seven_segment_devp\<close> points
  to: \<^verbatim>\<open>read\<close> and \<^verbatim>\<open>write\<close> reach the same object as the attribute does.

  \<^verbatim>\<open>
  for (retval = 0; retval < count; ++retval) {
      byte = '0' + seven_segment_devp->digit_to_display;
      if (put_user(byte, buf + retval))
          break;
  }
  return retval;
  \<close>
  \<open>uwritable i\<close> tells whether \<^verbatim>\<open>put_user\<close> can write at \<^verbatim>\<open>buf + i\<close>; \<open>out\<close>
  collects the bytes delivered so far.
\<close>

function read_loop ::
  "driver \<Rightarrow> (nat \<Rightarrow> bool) \<Rightarrow> nat \<Rightarrow> nat \<Rightarrow> byte list \<Rightarrow> ((int \<times> byte list) \<times> driver) outcome"
where
  "read_loop s uwritable count retval out =
     (if retval < count then
        (case seven_segment_devp s of
           None \<Rightarrow> Oops
         | Some dev \<Rightarrow>
             (if uwritable retval
              then read_loop s uwritable count (Suc retval) (out @ [48 + digit_to_display dev])
              else Done ((int retval, out), s)))
      else Done ((int retval, out), s))"
  by pat_completeness auto
termination
  by (relation "measure (\<lambda>(s, uwritable, count, retval, out). count - retval)") auto

declare read_loop.simps [simp del]

definition seven_segment_read ::
  "driver \<Rightarrow> (nat \<Rightarrow> bool) \<Rightarrow> nat \<Rightarrow> ((int \<times> byte list) \<times> driver) outcome" where
  "seven_segment_read s uwritable count = read_loop s uwritable count 0 []"

text \<open>
  \<^verbatim>\<open>
  memset(message, 0, USE_NUMBER_OF_DIGITS);
  if (copy_from_user(message, buf, count) != 0)
      return -EFAULT;
  seven_segment_devp->digit_to_display = message[0] - (int)'0';
  display_on_screen(message);
  f_pos += count;
  return count;
  \<close>
  \<open>ubuf\<close> holds the bytes readable at the caller's \<^verbatim>\<open>buf\<close>. The file layer of the
  kernel never passes a \<open>count\<close> that does not fit \<^verbatim>\<open>ssize_t\<close>, so the returned
  \<open>count\<close> is the integer \<open>int count\<close>. \<^verbatim>\<open>f_pos += count\<close> moves a local pointer only.
\<close>

definition seven_segment_write :: "driver \<Rightarrow> byte list \<Rightarrow> nat \<Rightarrow> (int \<times> driver) outcome" where
  "seven_segment_write s ubuf count =
     (case message s of
        None \<Rightarrow> Oops
      | Some m \<Rightarrow>
          (let (left, m') = copy_from_user (memset m 0 USE_NUMBER_OF_DIGITS) ubuf count;
               s1 = s\<lparr>message := Some m'\<rparr>
           in if left \<noteq> 0 then Done (- EFAULT, s1)
              else (case seven_segment_devp s1 of
                      None \<Rightarrow> Oops
                    | Some dev \<Rightarrow>
                        Done (int count,
                              display_on_screen m'
                                (s1\<lparr>seven_segment_devp :=
                                      Some (dev\<lparr>digit_to_display := m' ! 0 - 48\<rparr>)\<rparr>)))))"

subsection \<open>Set-up and tear-down\<close>

text \<open>
  What the kernel answers to the calls of \<^verbatim>\<open>seven_segment_init\<close>: the return codes
  of \<^verbatim>\<open>alloc_chrdev_region\<close>, \<^verbatim>\<open>class_register\<close> and \<^verbatim>\<open>cdev_add\<close> (0 on success,
  a negative error number otherwise), the memory the two \<^verbatim>\<open>kmalloc\<close> calls return
  (\<open>None\<close> is \<^verbatim>\<open>NULL\<close>, otherwise the contents found there), and the pointer
  \<^verbatim>\<open>device_create\<close> returns, which is an error pointer, never \<^verbatim>\<open>NULL\<close>, when the
  kernel cannot create the device.
\<close>

datatype device_ptr = NULL | ERR_PTR | DEVICE

record kernel =
  alloc_chrdev_region_ret :: int
  class_register_ret :: int
  kmalloc_devp_ret :: "seven_segment_dev option"
  cdev_add_ret :: int
  device_create_ret :: device_ptr
  kmalloc_message_ret :: "byte list option"

text \<open>A call that succeeds adds its resource to \<open>held\<close>; a releasing call is logged and
  takes its resource out of \<open>held\<close> (nothing happens to \<open>held\<close> if it is not there).\<close>

definition acquire :: "bool \<Rightarrow> resource \<Rightarrow> driver \<Rightarrow> driver" where
  "acquire ok r s = (if ok then s\<lparr>held := held s @ [r]\<rparr> else s)"

definition release :: "kcall \<Rightarrow> resource \<Rightarrow> driver \<Rightarrow> driver" where
  "release c r s = s\<lparr>held := removeAll r (held s), released := released s @ [c]\<rparr>"

definition unregister_chrdev_region :: "driver \<Rightarrow> driver" where
  "unregister_chrdev_region = release Unregister_chrdev_region Region"

definition class_destroy :: "driver \<Rightarrow> driver" where
  "class_destroy = release Class_destroy Class"

definition device_destroy :: "driver \<Rightarrow> driver" where
  "device_destroy = release Device_destroy Node"

definition kfree_devp :: "driver \<Rightarrow> driver" where
  "kfree_devp = release Kfree_devp DevMem"

text \<open>
  \<^verbatim>\<open>seven_segment_init\<close>, statement by statement; the \<^verbatim>\<open>printk\<close> calls are left
  out. The result of the last \<^verbatim>\<open>kmalloc\<close> is stored in \<open>message\<close> and not tested.
\<close>

definition seven_segment_init :: "kernel \<Rightarrow> driver \<Rightarrow> int \<times> driver" where
  "seven_segment_init k s0 =
     (let s1 = acquire (alloc_chrdev_region_ret k = 0) Region s0 in
      if alloc_chrdev_region_ret k < 0 then (- 1, s1)
      else
        let s2 = acquire (class_register_ret k = 0) Class s1 in
        if class_register_ret k < 0 then (- EINVAL, unregister_chrdev_region s2)
        else
          let s3 = acquire (kmalloc_devp_ret k \<noteq> None) DevMem
                     (s2\<lparr>seven_segment_devp := kmalloc_devp_ret k\<rparr>) in
          (case seven_segment_devp s3 of
             None \<Rightarrow> (- ENOMEM, s3)
           | Some dev \<Rightarrow>
               let s4 = s3\<lparr>seven_segment_devp := Some (dev\<lparr>digit_to_display := 49 - 48\<rparr>)\<rparr>;
                   s5 = acquire (cdev_add_ret k = 0) Cdev s4
               in if cdev_add_ret k \<noteq> 0
                  then (cdev_add_ret k,
                        unregister_chrdev_region (class_destroy (device_destroy s5)))
                  else
                    let s6 = acquire (device_create_ret k = DEVICE) Node s5 in
                    if device_create_ret k = NULL
                    then (- 1, unregister_chrdev_region (class_destroy s6))
                    else
                      (0, acquire (kmalloc_message_ret k \<noteq> None) MsgBuf
                            (s6\<lparr>message := kmalloc_message_ret k\<rparr>))))"

text \<open>
  \<^verbatim>\<open>
  unregister_chrdev_region(first, USE_DIPLAY_NUM);
  kfree(seven_segment_devp);
  device_destroy(&seven_segment_class, MKDEV(MAJOR(first), MINOR(first)));
  class_destroy(&seven_segment_class);
  \<close>
  \<^verbatim>\<open>kfree\<close> gives the memory back and leaves the pointer as it is.
\<close>

definition seven_segment_exit :: "driver \<Rightarrow> driver" where
  "seven_segment_exit s =
     class_destroy (device_destroy (kfree_devp (unregister_chrdev_region s)))"

text \<open>
  The module as the loader finds it (both global pointers \<^verbatim>\<open>NULL\<close>, nothing held),
  a kernel in which every call of the set-up succeeds, and the driver after that set-up.
\<close>

definition loaded :: driver where
  "loaded = \<lparr>seven_segment_devp = None, message = None, held = [], released = [],
              screen = []\<rparr>"

definition kernel_ok :: kernel where
  "kernel_ok = \<lparr>alloc_chrdev_region_ret = 0, class_register_ret = 0,
                 kmalloc_devp_ret = Some \<lparr>digit_to_display = 0\<rparr>, cdev_add_ret = 0,
                 device_create_ret = DEVICE, kmalloc_message_ret = Some [0]\<rparr>"

definition active :: driver where
  "active = snd (seven_segment_init kernel_ok loaded)"

section \<open>Properties\<close>

subsection \<open>Auxiliary facts\<close>

text \<open>The driver after a set-up in which every call succeeded.\<close>

lemma active_eq:
  "active = \<lparr>seven_segment_devp = Some \<lparr>digit_to_display = 1\<rparr>, message = Some [0],
              held = [Region, Class, DevMem, Cdev, Node, MsgBuf], released = [],
              screen = []\<rparr>"
  by (simp add: active_def seven_segment_init_def kernel_ok_def loaded_def acquire_def Let_def)

text \<open>The test of \<^verbatim>\<open>store\<close> accepts exactly the characters \<^verbatim>\<open>'0'\<close> to \<^verbatim>\<open>'9'\<close>.\<close>

lemma is_digit_test:
  "(int_of_char b - 48 < 10 \<and> int_of_char b - 48 \<ge> 0) = (48 \<le> b \<and> b \<le> 57)"
  by (auto simp: int_of_char_def word_le_def)

text \<open>The character of a digit, \<^verbatim>\<open>'0' + d\<close>, lies in that range.\<close>

lemma digit_char:
  fixes d :: nat
  assumes "d < 10"
  shows "48 \<le> (48 + of_nat d :: byte) \<and> (48 + of_nat d :: byte) \<le> 57"
proof -
  have "unat (48 + of_nat d :: byte) = 48 + d"
    using assms by (simp add: unat_word_ariths unat_of_nat)
  then show ?thesis
    using assms by (simp add: word_le_nat_alt)
qed

text \<open>\<^verbatim>\<open>copy_from_user\<close> leaves nothing behind exactly when all \<open>n\<close> bytes can be read.\<close>

lemma copy_from_user_left: "fst (copy_from_user to from n) = 0 \<longleftrightarrow> n \<le> length from"
  by (auto simp: copy_from_user_def Let_def)

text \<open>What \<^verbatim>\<open>write\<close> does when the bytes arrive, and when they do not.\<close>

lemma write_delivered:
  assumes "seven_segment_devp s = Some dev" and "message s = Some m" and "count \<le> length ubuf"
  shows "seven_segment_write s ubuf count =
           Done (int count,
             s\<lparr>message := Some (take count ubuf @ drop count (memset m 0 USE_NUMBER_OF_DIGITS)),
               seven_segment_devp := Some (dev\<lparr>digit_to_display :=
                 (take count ubuf @ drop count (memset m 0 USE_NUMBER_OF_DIGITS)) ! 0 - 48\<rparr>),
               screen := screen s @ [take count ubuf @ drop count (memset m 0 USE_NUMBER_OF_DIGITS)]\<rparr>)"
  using assms
  by (simp add: seven_segment_write_def copy_from_user_def display_on_screen_def Let_def min_def)

lemma write_fault:
  assumes "message s = Some m" and "length ubuf < count"
  shows "\<exists>s'. seven_segment_write s ubuf count = Done (- EFAULT, s')"
  using assms
  by (simp add: seven_segment_write_def copy_from_user_def Let_def min_def)

text \<open>The two branches of \<^verbatim>\<open>store\<close>.\<close>

lemma store_digit:
  assumes "seven_segment_devp s = Some dev" and "48 \<le> first_byte buf" and "first_byte buf \<le> 57"
  shows "digit_to_display_store s buf count =
           Done (1, s\<lparr>seven_segment_devp := Some (dev\<lparr>digit_to_display := first_byte buf - 48\<rparr>),
                      screen := screen s @ [buf]\<rparr>)"
  unfolding digit_to_display_store_def is_digit_test
  using assms by (simp add: display_on_screen_def)

lemma store_other:
  assumes "\<not> (48 \<le> first_byte buf \<and> first_byte buf \<le> 57)"
  shows "digit_to_display_store s buf count = Done (1, s)"
  unfolding digit_to_display_store_def is_digit_test
  using assms by auto

text \<open>The loop of \<^verbatim>\<open>read\<close>: it stops at \<open>count\<close> or at the first byte that cannot be delivered, every byte it delivers is the character of the register, and the driver is as before.\<close>

lemma read_loop_run:
  assumes "seven_segment_devp s = Some dev" and "retval \<le> count"
  shows "\<exists>r. read_loop s uw count retval out =
               Done ((int r, out @ replicate (r - retval) (48 + digit_to_display dev)), s)
             \<and> retval \<le> r \<and> r \<le> count
             \<and> (\<forall>i. retval \<le> i \<and> i < r \<longrightarrow> uw i)
             \<and> (r < count \<longrightarrow> \<not> uw r)"
  using assms
proof (induction s uw count retval out rule: read_loop.induct)
  case (1 s uw count retval out)
  show ?case
  proof (cases "retval < count \<and> uw retval")
    case True
    with 1 obtain r where r:
      "read_loop s uw count (Suc retval) (out @ [48 + digit_to_display dev]) =
         Done ((int r, (out @ [48 + digit_to_display dev]) @
                 replicate (r - Suc retval) (48 + digit_to_display dev)), s)"
      "Suc retval \<le> r" "r \<le> count"
      "\<forall>i. Suc retval \<le> i \<and> i < r \<longrightarrow> uw i" "r < count \<longrightarrow> \<not> uw r"
      by fastforce
    have "replicate (r - retval) (48 + digit_to_display dev) =
          (48 + digit_to_display dev) # replicate (r - Suc retval) (48 + digit_to_display dev)"
      using r(2) by (cases "r - retval") (auto simp: Suc_diff_Suc)
    moreover have "\<forall>i. retval \<le> i \<and> i < r \<longrightarrow> uw i"
      using r(4) True by (metis Suc_leI le_neq_implies_less)
    ultimately show ?thesis
      using True 1(2) r by (subst read_loop.simps) auto
  next
    case False
    then show ?thesis
      using 1(2,3) by (subst read_loop.simps) auto
  qed
qed

lemma read_run:
  assumes "seven_segment_devp s = Some dev"
  shows "\<exists>r. seven_segment_read s uw count =
               Done ((int r, replicate r (48 + digit_to_display dev)), s)
             \<and> r \<le> count \<and> (\<forall>i. i < r \<longrightarrow> uw i) \<and> (r < count \<longrightarrow> \<not> uw r)"
  using read_loop_run [OF assms, of 0 count uw "[]"]
  by (simp add: seven_segment_read_def)

lemma read_all:
  assumes "seven_segment_devp s = Some dev" and "\<forall>i. i < count \<longrightarrow> uw i"
  shows "seven_segment_read s uw count =
           Done ((int count, replicate count (48 + digit_to_display dev)), s)"
proof -
  from read_run [OF assms(1), of uw count] obtain r where r:
    "seven_segment_read s uw count = Done ((int r, replicate r (48 + digit_to_display dev)), s)"
    "r \<le> count" "r < count \<longrightarrow> \<not> uw r"
    by blast
  with assms(2) have "r = count"
    by (metis le_neq_implies_less)
  with r(1) show ?thesis by simp
qed

text \<open>\<^verbatim>\<open>show\<close> prints the character of the register and a newline.\<close>

lemma show_run:
  assumes "seven_segment_devp s = Some dev"
  shows "digit_to_display_show s = Done ((2, [48 + digit_to_display dev, 10]), s)"
  using assms by (simp add: digit_to_display_show_def)

text \<open>A \<^verbatim>\<open>write\<close> of at least one byte that arrives stores the first byte minus \<^verbatim>\<open>'0'\<close>.\<close>

lemma write_digit:
  assumes "seven_segment_devp s = Some dev" and "message s = Some m"
    and "0 < count" and "count \<le> Suc (length rest)"
  shows "\<exists>s'. seven_segment_write s (c # rest) count = Done (int count, s')
             \<and> seven_segment_devp s' = Some (dev\<lparr>digit_to_display := c - 48\<rparr>)"
proof -
  from assms(3) obtain n where n: "count = Suc n" by (cases count) auto
  have len: "count \<le> length (c # rest)" using assms(4) by simp
  show ?thesis
    using write_delivered [OF assms(1,2) len] by (simp add: n)
qed

subsection \<open>The claims of the specification\<close>

text \<open>
  Claim C1: a byte that is not one of the characters \<^verbatim>\<open>'0'\<close> to \<^verbatim>\<open>'9'\<close>, submitted
  through \<^verbatim>\<open>write\<close> or through \<^verbatim>\<open>store\<close>, leaves the register as it is, does not
  call \<^verbatim>\<open>display_on_screen\<close>, and the call reports success. \<^verbatim>\<open>store\<close> does so
  (\<open>store_other\<close>); \<^verbatim>\<open>write\<close> has no test: after the set-up the register holds 1,
  and writing the one byte \<^verbatim>\<open>'a'\<close> (97) returns 1, stores \<open>97 - 48 = 49\<close> and calls
  \<^verbatim>\<open>display_on_screen\<close>.
\<close>

theorem write_stores_non_digit:
  "seven_segment_devp active = Some \<lparr>digit_to_display = 1\<rparr> \<and> screen active = [] \<and>
   seven_segment_write active [97] 1 =
     Done (1, active\<lparr>seven_segment_devp := Some \<lparr>digit_to_display = 49\<rparr>,
                     message := Some [97], screen := [[97]]\<rparr>)"
  by (simp add: active_eq seven_segment_write_def copy_from_user_def memset_def
        USE_NUMBER_OF_DIGITS_def display_on_screen_def Let_def)

text \<open>
  Claim C2: the register always holds a value from 0 to 9. It holds 1 after the set-up,
  but \<^verbatim>\<open>write\<close> stores its first byte unchecked: writing \<^verbatim>\<open>':'\<close> (58) after
  the set-up leaves 10 in the register.
\<close>

theorem write_breaks_digit_range:
  "\<exists>s dev. seven_segment_write active [58] 1 = Done (1, s) \<and>
           seven_segment_devp s = Some dev \<and> unat (digit_to_display dev) = 10"
  by (simp add: active_eq seven_segment_write_def copy_from_user_def memset_def
        USE_NUMBER_OF_DIGITS_def display_on_screen_def Let_def)

text \<open>
  Claim C3: when a step of the set-up fails, everything acquired before it is released
  in reverse order, the failure is reported, and nothing stays held. When the
  \<^verbatim>\<open>kmalloc\<close> of the device structure (the third step) returns \<^verbatim>\<open>NULL\<close>,
  \<^verbatim>\<open>seven_segment_init\<close> returns \<^verbatim>\<open>-ENOMEM\<close> without a releasing call: the region
  and the class stay held.
\<close>

theorem init_leaks_on_kmalloc_failure:
  "seven_segment_init (kernel_ok\<lparr>kmalloc_devp_ret := None\<rparr>) loaded =
     (- ENOMEM, loaded\<lparr>held := [Region, Class]\<rparr>)"
  by (simp add: seven_segment_init_def kernel_ok_def loaded_def acquire_def Let_def)

text \<open>
  Claim C4: the tear-down releases in the reverse of the order of acquisition, the class
  before the region. \<^verbatim>\<open>seven_segment_exit\<close> after a complete set-up gives the region
  back first and the class last, and leaves the character device and the message buffer
  held.
\<close>

theorem exit_release_order:
  "released (seven_segment_exit active) =
     [Unregister_chrdev_region, Kfree_devp, Device_destroy, Class_destroy] \<and>
   held (seven_segment_exit active) = [Cdev, MsgBuf]"
  by (simp add: active_eq seven_segment_exit_def unregister_chrdev_region_def
        kfree_devp_def device_destroy_def class_destroy_def release_def)

text \<open>
  Claim C5: \<^verbatim>\<open>write\<close> returns the full \<open>count\<close> when the bytes arrive, whatever
  they are; it returns \<^verbatim>\<open>-EFAULT\<close> exactly when they do not, that is, when
  \<^verbatim>\<open>copy_from_user\<close> leaves bytes uncopied because fewer than \<open>count\<close> bytes can be
  read at the caller's address. The driver is one whose two pointers are set.
\<close>

theorem write_return_value:
  assumes "seven_segment_devp s = Some dev" and "message s = Some m"
  shows "(count \<le> length ubuf \<longrightarrow>
            (\<exists>s'. seven_segment_write s ubuf count = Done (int count, s')))
       \<and> ((\<exists>s'. seven_segment_write s ubuf count = Done (- EFAULT, s'))
            \<longleftrightarrow> length ubuf < count)
       \<and> (length ubuf < count
            \<longleftrightarrow> fst (copy_from_user (memset m 0 USE_NUMBER_OF_DIGITS) ubuf count) \<noteq> 0)"
proof (intro conjI)
  show "count \<le> length ubuf \<longrightarrow>
          (\<exists>s'. seven_segment_write s ubuf count = Done (int count, s'))"
    using write_delivered [OF assms] by simp
  show "(\<exists>s'. seven_segment_write s ubuf count = Done (- EFAULT, s')) \<longleftrightarrow> length ubuf < count"
  proof
    assume "\<exists>s'. seven_segment_write s ubuf count = Done (- EFAULT, s')"
    then obtain s' where w: "seven_segment_write s ubuf count = Done (- EFAULT, s')" ..
    show "length ubuf < count"
    proof (rule ccontr)
      assume "\<not> length ubuf < count"
      then have "count \<le> length ubuf" by simp
      from write_delivered [OF assms this] w have "int count = - EFAULT" by simp
      then show False by (simp add: EFAULT_def)
    qed
  next
    assume "length ubuf < count"
    then show "\<exists>s'. seven_segment_write s ubuf count = Done (- EFAULT, s')"
      by (rule write_fault [OF assms(2)])
  qed
  show "length ubuf < count
          \<longleftrightarrow> fst (copy_from_user (memset m 0 USE_NUMBER_OF_DIGITS) ubuf count) \<noteq> 0"
    using copy_from_user_left [of "memset m 0 USE_NUMBER_OF_DIGITS" ubuf count] by auto
qed

theorem write_return_value_witness:
  "seven_segment_devp active = Some \<lparr>digit_to_display = 1\<rparr> \<and> message active = Some [0] \<and>
   (\<exists>s'. seven_segment_write active [120, 121] 2 = Done (2, s')) \<and>
   (\<exists>s'. seven_segment_write active [53] 4 = Done (- EFAULT, s'))"
  using write_return_value [of active "\<lparr>digit_to_display = 1\<rparr>" "[0]" 2 "[120, 121]"]
    write_return_value [of active "\<lparr>digit_to_display = 1\<rparr>" "[0]" 4 "[53]"]
  by (simp add: active_eq)

text \<open>
  Claim C6: \<^verbatim>\<open>write\<close> copies at most one byte into the message buffer, whose size is
  one byte. The call is \<^verbatim>\<open>copy_from_user(message, buf, count)\<close>: a write of the two
  bytes \<^verbatim>\<open>"12"\<close> puts both at \<open>message\<close>, one more than the
  \<open>USE_NUMBER_OF_DIGITS\<close> bytes allocated and cleared. (The register does depend on the
  first byte only, see \<open>write_digit\<close>.)
\<close>

theorem write_copies_count_bytes:
  "\<exists>s. seven_segment_write active [49, 50] 2 = Done (2, s) \<and> message s = Some [49, 50] \<and>
       USE_NUMBER_OF_DIGITS < length [49, 50 :: byte]"
  by (simp add: active_eq seven_segment_write_def copy_from_user_def memset_def
        USE_NUMBER_OF_DIGITS_def display_on_screen_def Let_def)

text \<open>
  Claim C7: for a digit \<open>d\<close> from 0 to 9, after the character \<^verbatim>\<open>'0' + d\<close> has been
  submitted, as the first of the bytes of a \<^verbatim>\<open>write\<close> that arrives or of a
  \<^verbatim>\<open>store\<close>, both \<^verbatim>\<open>show\<close> and \<^verbatim>\<open>read\<close> give that character back:
  \<^verbatim>\<open>show\<close> followed by a newline, \<^verbatim>\<open>read\<close> at each of the \<open>k\<close> positions asked
  for (the caller's buffer taking all of them).
\<close>

theorem digit_round_trip:
  fixes d :: nat
  assumes "d < 10"
    and "seven_segment_devp s = Some dev" and "message s = Some m"
    and "0 < count" and "count \<le> Suc (length rest)"
    and "\<forall>i. i < k \<longrightarrow> uwritable i"
  shows "\<exists>s1 s2.
           seven_segment_write s ((48 + of_nat d) # rest) count = Done (int count, s1)
         \<and> digit_to_display_store s ((48 + of_nat d) # rest) n = Done (1, s2)
         \<and> digit_to_display_show s1 = Done ((2, [48 + of_nat d, 10]), s1)
         \<and> digit_to_display_show s2 = Done ((2, [48 + of_nat d, 10]), s2)
         \<and> seven_segment_read s1 uwritable k = Done ((int k, replicate k (48 + of_nat d)), s1)
         \<and> seven_segment_read s2 uwritable k = Done ((int k, replicate k (48 + of_nat d)), s2)"
proof -
  let ?c = "48 + of_nat d :: byte"
  let ?dev = "dev\<lparr>digit_to_display := ?c - 48\<rparr>"
  have dig: "48 + digit_to_display ?dev = ?c" by simp
  from write_digit [OF assms(2,3,4,5), of ?c] obtain s1 where s1:
    "seven_segment_write s (?c # rest) count = Done (int count, s1)"
    "seven_segment_devp s1 = Some ?dev"
    by blast
  have fb: "first_byte (?c # rest) = ?c" by (simp add: first_byte_def)
  define s2 where "s2 = s\<lparr>seven_segment_devp := Some ?dev, screen := screen s @ [?c # rest]\<rparr>"
  have st: "digit_to_display_store s (?c # rest) n = Done (1, s2)"
    using store_digit [OF assms(2), of "?c # rest" n] digit_char [OF assms(1)]
    by (simp add: fb s2_def)
  have d2: "seven_segment_devp s2 = Some ?dev" by (simp add: s2_def)
  have "digit_to_display_show s1 = Done ((2, [?c, 10]), s1)"
    using show_run [OF s1(2)] by simp
  moreover have "digit_to_display_show s2 = Done ((2, [?c, 10]), s2)"
    using show_run [OF d2] by simp
  moreover have "seven_segment_read s1 uwritable k = Done ((int k, replicate k ?c), s1)"
    using read_all [OF s1(2) assms(6)] by simp
  moreover have "seven_segment_read s2 uwritable k = Done ((int k, replicate k ?c), s2)"
    using read_all [OF d2 assms(6)] by simp
  ultimately show ?thesis
    using s1(1) st by blast
qed

theorem digit_round_trip_witness:
  "\<exists>s1 s2.
     seven_segment_write active [55, 10] 2 = Done (2, s1)
   \<and> digit_to_display_store active [55, 10] 2 = Done (1, s2)
   \<and> digit_to_display_show s1 = Done ((2, [55, 10]), s1)
   \<and> digit_to_display_show s2 = Done ((2, [55, 10]), s2)
   \<and> seven_segment_read s1 (\<lambda>i. True) 3 = Done ((3, [55, 55, 55]), s1)
   \<and> seven_segment_read s2 (\<lambda>i. True) 3 = Done ((3, [55, 55, 55]), s2)"
  using digit_round_trip [of 7 active "\<lparr>digit_to_display = 1\<rparr>" "[0]" 2 "[10]" 3 "\<lambda>i. True" 2]
  by (simp add: active_eq numeral_3_eq_3)

text \<open>
  Claim C8: \<^verbatim>\<open>read\<close> of \<open>count\<close> bytes returns a number \<open>r\<close> of at most \<open>count\<close>
  and delivers \<open>r\<close> bytes, each the character of the register; it delivers fewer than
  \<open>count\<close> only when \<^verbatim>\<open>put_user\<close> refuses the byte at position \<open>r\<close>, and then the
  shorter count \<open>r\<close> is what it returns, not an error.
\<close>

theorem read_yields_digit_bytes:
  assumes "seven_segment_devp s = Some dev"
  shows "\<exists>r. seven_segment_read s uwritable count =
               Done ((int r, replicate r (48 + digit_to_display dev)), s)
             \<and> r \<le> count
             \<and> (\<forall>i. i < r \<longrightarrow> uwritable i)
             \<and> (r < count \<longrightarrow> \<not> uwritable r)"
  using read_run [OF assms] .

theorem read_yields_digit_bytes_witness:
  "seven_segment_read active (\<lambda>i. i < 2) 5 = Done ((2, [49, 49]), active) \<and>
   seven_segment_read active (\<lambda>i. True) 3 = Done ((3, [49, 49, 49]), active)"
proof -
  have dev: "seven_segment_devp active = Some \<lparr>digit_to_display = 1\<rparr>"
    by (simp add: active_eq)
  from read_yields_digit_bytes [OF dev, of "\<lambda>i. i < 2" 5] obtain r where r:
    "seven_segment_read active (\<lambda>i. i < 2) 5 = Done ((int r, replicate r 49), active)"
    "r \<le> 5" "\<forall>i. i < r \<longrightarrow> i < 2" "r < 5 \<longrightarrow> \<not> r < 2"
    by auto
  have "r = 2"
  proof -
    have "r \<le> 2" using r(3) by (metis not_less lessI less_Suc_eq_le linorder_not_le)
    with r(2,4) show ?thesis by simp
  qed
  with r(1) have a: "seven_segment_read active (\<lambda>i. i < 2) 5 = Done ((2, [49, 49]), active)"
    by (simp add: numeral_2_eq_2)
  from read_yields_digit_bytes [OF dev, of "\<lambda>i. True" 3] obtain q where q:
    "seven_segment_read active (\<lambda>i. True) 3 = Done ((int q, replicate q 49), active)"
    "q \<le> 3" "q < 3 \<longrightarrow> False"
    by auto
  then have "q = 3" by simp
  with q(1) have b: "seven_segment_read active (\<lambda>i. True) 3 = Done ((3, [49, 49, 49]), active)"
    by (simp add: numeral_3_eq_3)
  from a b show ?thesis ..
qed

text \<open>
  Claim C9: \<^verbatim>\<open>store\<close> returns 1 for every buffer and every \<open>count\<close>, a digit or not,
  \<open>count\<close> 0 included.
\<close>

theorem store_returns_one:
  assumes "seven_segment_devp s = Some dev"
  shows "\<exists>s'. digit_to_display_store s buf count = Done (1, s')"
  using assms by (simp add: digit_to_display_store_def)

theorem store_returns_one_witness:
  "seven_segment_devp active = Some \<lparr>digit_to_display = 1\<rparr> \<and>
   (\<exists>s'. digit_to_display_store active [] 0 = Done (1, s')) \<and>
   (\<exists>s'. digit_to_display_store active [55, 56, 10] 3 = Done (1, s')) \<and>
   (\<exists>s'. digit_to_display_store active [104, 105] 2 = Done (1, s'))"
  using store_returns_one [of active "\<lparr>digit_to_display = 1\<rparr>" "[]" 0]
    store_returns_one [of active "\<lparr>digit_to_display = 1\<rparr>" "[55, 56, 10]" 3]
    store_returns_one [of active "\<lparr>digit_to_display = 1\<rparr>" "[104, 105]" 2]
  by (simp add: active_eq)

text \<open>
  Claim C10: \<^verbatim>\<open>read\<close> and \<^verbatim>\<open>show\<close> only observe: they return with the driver
  as it was, the register and the trace of \<^verbatim>\<open>display_on_screen\<close> calls included.
\<close>

theorem observers_change_nothing:
  assumes "seven_segment_devp s = Some dev"
  shows "(\<exists>r. seven_segment_read s uwritable count = Done (r, s))
       \<and> (\<exists>r. digit_to_display_show s = Done (r, s))"
  using read_run [OF assms, of uwritable count] show_run [OF assms] by auto

theorem observers_change_nothing_witness:
  "seven_segment_devp active = Some \<lparr>digit_to_display = 1\<rparr> \<and>
   (\<exists>r. seven_segment_read active (\<lambda>i. i < 7) 4 = Done (r, active)) \<and>
   (\<exists>r. digit_to_display_show active = Done (r, active))"
  using observers_change_nothing [of active "\<lparr>digit_to_display = 1\<rparr>" "\<lambda>i. i < 7" 4]
  by (simp add: active_eq)

end
